theory Spec2Isabelle
  imports Complex_Main
begin

section \<open>JavaScript numbers\<close>

text \<open>
  Every quantity of the geometry engine is a JavaScript \<^verbatim>\<open>number\<close>. The model keeps the
  three special values that division produces (\<^verbatim>\<open>Infinity\<close>, \<^verbatim>\<open>-Infinity\<close>, \<^verbatim>\<open>NaN\<close>) and
  takes every finite value as an exact real: binary64 rounding error, overflow of finite
  arithmetic and the sign of zero (a zero divisor counts as \<^verbatim>\<open>+0\<close>) are not represented.
  Arithmetic on numbers never raises in JavaScript; it yields one of the special values.
\<close>

datatype jsnum = Fin real | PInf | NInf | NaN

instantiation jsnum :: "{plus, minus, uminus, times, inverse, abs, ord}"
begin

fun plus_jsnum :: "jsnum \<Rightarrow> jsnum \<Rightarrow> jsnum" where
  "Fin a + Fin b = Fin (a + b)"
| "NaN + _ = NaN"
| "_ + NaN = NaN"
| "PInf + NInf = NaN"
| "NInf + PInf = NaN"
| "PInf + _ = PInf"
| "_ + PInf = PInf"
| "NInf + _ = NInf"
| "_ + NInf = NInf"

fun uminus_jsnum :: "jsnum \<Rightarrow> jsnum" where
  "- Fin a = Fin (- a)"
| "- PInf = NInf"
| "- NInf = PInf"
| "- NaN = NaN"

definition minus_jsnum :: "jsnum \<Rightarrow> jsnum \<Rightarrow> jsnum" where
  "a - b = a + (- b :: jsnum)"

fun times_jsnum :: "jsnum \<Rightarrow> jsnum \<Rightarrow> jsnum" where
  "Fin a * Fin b = Fin (a * b)"
| "NaN * _ = NaN"
| "_ * NaN = NaN"
| "PInf * Fin b = (if b = 0 then NaN else if 0 < b then PInf else NInf)"
| "NInf * Fin b = (if b = 0 then NaN else if 0 < b then NInf else PInf)"
| "Fin a * PInf = (if a = 0 then NaN else if 0 < a then PInf else NInf)"
| "Fin a * NInf = (if a = 0 then NaN else if 0 < a then NInf else PInf)"
| "PInf * PInf = PInf"
| "PInf * NInf = NInf"
| "NInf * PInf = NInf"
| "NInf * NInf = PInf"

fun divide_jsnum :: "jsnum \<Rightarrow> jsnum \<Rightarrow> jsnum" where
  "divide_jsnum (Fin a) (Fin b) =
     (if b = 0 then (if a = 0 then NaN else if 0 < a then PInf else NInf)
      else Fin (a / b))"
| "divide_jsnum NaN _ = NaN"
| "divide_jsnum _ NaN = NaN"
| "divide_jsnum (Fin a) PInf = Fin 0"
| "divide_jsnum (Fin a) NInf = Fin 0"
| "divide_jsnum PInf (Fin b) = (if 0 \<le> b then PInf else NInf)"
| "divide_jsnum NInf (Fin b) = (if 0 \<le> b then NInf else PInf)"
| "divide_jsnum PInf PInf = NaN"
| "divide_jsnum PInf NInf = NaN"
| "divide_jsnum NInf PInf = NaN"
| "divide_jsnum NInf NInf = NaN"

definition inverse_jsnum :: "jsnum \<Rightarrow> jsnum" where
  "inverse a = Fin 1 div (a :: jsnum)"

fun abs_jsnum :: "jsnum \<Rightarrow> jsnum" where
  "\<bar>Fin a\<bar> = Fin \<bar>a\<bar>"
| "\<bar>PInf\<bar> = PInf"
| "\<bar>NInf\<bar> = PInf"
| "\<bar>NaN\<bar> = NaN"

text \<open>Comparisons with \<^verbatim>\<open>NaN\<close> are false; \<^verbatim>\<open>a >= b\<close> of the source is \<open>b \<le> a\<close>.\<close>

fun less_eq_jsnum :: "jsnum \<Rightarrow> jsnum \<Rightarrow> bool" where
  "Fin a \<le> Fin b = (a \<le> b)"
| "NaN \<le> _ = False"
| "_ \<le> NaN = False"
| "NInf \<le> _ = True"
| "_ \<le> PInf = True"
| "PInf \<le> _ = False"
| "_ \<le> NInf = False"

fun less_jsnum :: "jsnum \<Rightarrow> jsnum \<Rightarrow> bool" where
  "Fin a < Fin b = (a < b)"
| "NaN < _ = False"
| "_ < NaN = False"
| "PInf < _ = False"
| "_ < NInf = False"
| "NInf < _ = True"
| "_ < PInf = True"

instance ..

end

text \<open>\<^verbatim>\<open>Math.floor\<close>, and \<^verbatim>\<open>Math.round\<close>, which rounds halves towards \<open>+\<infinity>\<close>.\<close>

fun Math_floor :: "jsnum \<Rightarrow> jsnum" where
  "Math_floor (Fin a) = Fin (of_int \<lfloor>a\<rfloor>)"
| "Math_floor PInf = PInf"
| "Math_floor NInf = NInf"
| "Math_floor NaN = NaN"

fun Math_round :: "jsnum \<Rightarrow> jsnum" where
  "Math_round (Fin a) = Fin (of_int \<lfloor>a + 1 / 2\<rfloor>)"
| "Math_round PInf = PInf"
| "Math_round NInf = NInf"
| "Math_round NaN = NaN"


section \<open>Errors\<close>

text \<open>
  The error kinds of the specification. The unit converters, the layout function and the
  alignment solver return \<open>error + 'a\<close>, with \<open>Inl\<close> for a raised error and \<open>Inr\<close> for a
  returned value, so that raising and returning are told apart in their results. Their
  bodies in \<^verbatim>\<open>passportStandards.ts\<close> and \<^verbatim>\<open>useFaceDetection.ts\<close> contain no \<^verbatim>\<open>throw\<close> and
  no guard, so each of them has a single \<open>Inr\<close> branch.
\<close>

datatype error = InvalidArgument | NoSubjectDetected | ModelUnavailable | DegenerateGeometry

section \<open>Standard registry (\<^verbatim>\<open>src/data/passportStandards.ts\<close>)\<close>

text \<open>
  The \<^verbatim>\<open>flag\<close> field (an emoji shown next to the country) is left out; the fields
  \<^verbatim>\<open>id\<close> and \<^verbatim>\<open>notes\<close> are called \<open>std_id\<close> and \<open>std_notes\<close> here.
\<close>

record PassportStandard =
  std_id :: string
  country :: string
  countryCode :: string
  width :: jsnum
  height :: jsnum
  headHeightMin :: jsnum
  headHeightMax :: jsnum
  eyeLineFromBottom :: jsnum
  backgroundColor :: string
  std_notes :: "string list"

definition std_us :: PassportStandard where
  "std_us = \<lparr>std_id = ''us'', country = ''United States'', countryCode = ''US'',
     width = Fin 51, height = Fin 51, headHeightMin = Fin 50, headHeightMax = Fin 69,
     eyeLineFromBottom = Fin 56, backgroundColor = ''#FFFFFF'',
     std_notes = [''Head must be centered'', ''Neutral expression required'',
              ''Eyes must be open and visible'']\<rparr>"

definition std_uk :: PassportStandard where
  "std_uk = \<lparr>std_id = ''uk'', country = ''United Kingdom'', countryCode = ''GB'',
     width = Fin 35, height = Fin 45, headHeightMin = Fin 66, headHeightMax = Fin 75,
     eyeLineFromBottom = Fin 55, backgroundColor = ''#FFFFFF'',
     std_notes = [''Plain cream or light grey background accepted'', ''Mouth closed'',
              ''No glasses with tinted lenses'']\<rparr>"

definition std_eu :: PassportStandard where
  "std_eu = \<lparr>std_id = ''eu'', country = ''European Union (Schengen)'', countryCode = ''EU'',
     width = Fin 35, height = Fin 45, headHeightMin = Fin 70, headHeightMax = Fin 80,
     eyeLineFromBottom = Fin 60, backgroundColor = ''#F0F0F0'',
     std_notes = [''ICAO compliant'', ''Light background required'',
              ''Face must be clearly visible'']\<rparr>"

definition std_india :: PassportStandard where
  "std_india = \<lparr>std_id = ''india'', country = ''India'', countryCode = ''IN'',
     width = Fin 35, height = Fin 45, headHeightMin = Fin 50, headHeightMax = Fin 70,
     eyeLineFromBottom = Fin 55, backgroundColor = ''#FFFFFF'',
     std_notes = [''White background only'', ''80% face coverage'',
              ''No border around photo'']\<rparr>"

definition std_china :: PassportStandard where
  "std_china = \<lparr>std_id = ''china'', country = ''China'', countryCode = ''CN'',
     width = Fin 33, height = Fin 48, headHeightMin = Fin 62, headHeightMax = Fin 73,
     eyeLineFromBottom = Fin 50, backgroundColor = ''#FFFFFF'',
     std_notes = [''Ears must be visible'', ''No head covering'',
              ''Natural complexion required'']\<rparr>"

definition std_canada :: PassportStandard where
  "std_canada = \<lparr>std_id = ''canada'', country = ''Canada'', countryCode = ''CA'',
     width = Fin 50, height = Fin 70, headHeightMin = Fin 45, headHeightMax = Fin 56,
     eyeLineFromBottom = Fin 55, backgroundColor = ''#FFFFFF'',
     std_notes = [''White or light-colored background'', ''Neutral expression'',
              ''Both eyes clearly visible'']\<rparr>"

definition std_australia :: PassportStandard where
  "std_australia = \<lparr>std_id = ''australia'', country = ''Australia'', countryCode = ''AU'',
     width = Fin 35, height = Fin 45, headHeightMin = Fin 60, headHeightMax = Fin 75,
     eyeLineFromBottom = Fin 55, backgroundColor = ''#FFFFFF'',
     std_notes = [''Plain light background'', ''Head centered in frame'',
              ''Glasses allowed if eyes visible'']\<rparr>"

definition std_japan :: PassportStandard where
  "std_japan = \<lparr>std_id = ''japan'', country = ''Japan'', countryCode = ''JP'',
     width = Fin 35, height = Fin 45, headHeightMin = Fin 60, headHeightMax = Fin 70,
     eyeLineFromBottom = Fin 55, backgroundColor = ''#FFFFFF'',
     std_notes = [''White background only'', ''No shadows on face'',
              ''Hair should not cover forehead'']\<rparr>"

definition std_germany :: PassportStandard where
  "std_germany = \<lparr>std_id = ''germany'', country = ''Germany'', countryCode = ''DE'',
     width = Fin 35, height = Fin 45, headHeightMin = Fin 70, headHeightMax = Fin 80,
     eyeLineFromBottom = Fin 60, backgroundColor = ''#F5F5F5'',
     std_notes = [''Light grey background preferred'', ''Biometric compliant'',
              ''Face 70-80% of photo height'']\<rparr>"

definition std_france :: PassportStandard where
  "std_france = \<lparr>std_id = ''france'', country = ''France'', countryCode = ''FR'',
     width = Fin 35, height = Fin 45, headHeightMin = Fin 70, headHeightMax = Fin 80,
     eyeLineFromBottom = Fin 60, backgroundColor = ''#E8E8E8'',
     std_notes = [''Light blue-grey background accepted'', ''Neutral expression required'',
              ''No smiling'']\<rparr>"

definition passportStandards :: "PassportStandard list" where
  "passportStandards = [std_us, std_uk, std_eu, std_india, std_china, std_canada,
     std_australia, std_japan, std_germany, std_france]"

text \<open>
  Sheet sizes. The fields \<^verbatim>\<open>id\<close>, \<^verbatim>\<open>name\<close>, \<^verbatim>\<open>width\<close> and \<^verbatim>\<open>height\<close> carry the prefix
  \<open>sheet_\<close>; the multiplication sign in the two inch-format names is written \<open>x\<close>.
\<close>

record SheetSize =
  sheet_id :: string
  sheet_name :: string
  sheet_width :: jsnum
  sheet_height :: jsnum
  dpi :: jsnum

definition sheet_4x6 :: SheetSize where
  "sheet_4x6 = \<lparr>sheet_id = ''4x6'', sheet_name = ''4in x 6in'',
     sheet_width = Fin 101.6, sheet_height = Fin 152.4, dpi = Fin 300\<rparr>"

definition sheet_5x7 :: SheetSize where
  "sheet_5x7 = \<lparr>sheet_id = ''5x7'', sheet_name = ''5in x 7in'',
     sheet_width = Fin 127, sheet_height = Fin 177.8, dpi = Fin 300\<rparr>"

definition sheet_a4 :: SheetSize where
  "sheet_a4 = \<lparr>sheet_id = ''a4'', sheet_name = ''A4'',
     sheet_width = Fin 210, sheet_height = Fin 297, dpi = Fin 300\<rparr>"

definition sheet_letter :: SheetSize where
  "sheet_letter = \<lparr>sheet_id = ''letter'', sheet_name = ''US Letter'',
     sheet_width = Fin 215.9, sheet_height = Fin 279.4, dpi = Fin 300\<rparr>"

definition sheet_a5 :: SheetSize where
  "sheet_a5 = \<lparr>sheet_id = ''a5'', sheet_name = ''A5'',
     sheet_width = Fin 148, sheet_height = Fin 210, dpi = Fin 300\<rparr>"

definition sheetSizes :: "SheetSize list" where
  "sheetSizes = [sheet_4x6, sheet_5x7, sheet_a4, sheet_letter, sheet_a5]"

section \<open>Sheet layout and unit conversion (\<^verbatim>\<open>src/data/passportStandards.ts\<close>)\<close>

record SheetGrid =
  columns :: jsnum
  rows :: jsnum
  total :: jsnum

text \<open>
  \<^verbatim>\<open>calculatePhotosPerSheet(photoWidth, photoHeight, sheet, marginMm = 5, gapMm = 2)\<close>.
  The two defaults apply when a caller omits the argument; the model takes both explicitly.
\<close>

definition calculatePhotosPerSheet ::
  "jsnum \<Rightarrow> jsnum \<Rightarrow> SheetSize \<Rightarrow> jsnum \<Rightarrow> jsnum \<Rightarrow> error + SheetGrid" where
  "calculatePhotosPerSheet photoWidth photoHeight sheet marginMm gapMm =
     (let usableWidth = sheet_width sheet - Fin 2 * marginMm;
          usableHeight = sheet_height sheet - Fin 2 * marginMm;
          cols = Math_floor ((usableWidth + gapMm) / (photoWidth + gapMm));
          rws = Math_floor ((usableHeight + gapMm) / (photoHeight + gapMm))
      in Inr \<lparr>columns = cols, rows = rws, total = cols * rws\<rparr>)"

text \<open>\<^verbatim>\<open>mmToPixels(mm, dpi = 300)\<close> and \<^verbatim>\<open>pixelsToMm(pixels, dpi = 300)\<close>, \<open>dpi\<close> explicit.\<close>

definition mmToPixels :: "jsnum \<Rightarrow> jsnum \<Rightarrow> error + jsnum" where
  "mmToPixels mm d = Inr (Math_round ((mm / Fin 25.4) * d))"


section \<open>Compliance validator and alignment solver (\<^verbatim>\<open>src/hooks/useFaceDetection.ts\<close>)\<close>

record FaceBox =
  xmin :: jsnum
  ymin :: jsnum
  xmax :: jsnum
  ymax :: jsnum

record DetectedFace =
  box :: FaceBox
  score :: jsnum

record FaceValidation =
  isValid :: bool
  headHeightValid :: bool
  eyeLineValid :: bool
  centeredValid :: bool
  headHeightPercent :: jsnum
  eyeLinePercent :: jsnum
  centerOffset :: jsnum
  messages :: "string list"

definition msg_too_small :: string where
  "msg_too_small = ''Face is too small. Zoom in or move closer.''"

definition msg_too_large :: string where
  "msg_too_large = ''Face is too large. Zoom out or move back.''"

definition msg_too_low :: string where
  "msg_too_low = ''Eyes are too low. Move the photo up.''"

definition msg_too_high :: string where
  "msg_too_high = ''Eyes are too high. Move the photo down.''"

definition msg_not_centered :: string where
  "msg_not_centered = ''Face is not centered. Adjust horizontally.''"

definition msg_success :: string where
  "msg_success = ''Photo meets passport requirements!''"

text \<open>
  \<^verbatim>\<open>validateFace\<close>. The array \<^verbatim>\<open>messages\<close> grows by \<^verbatim>\<open>push\<close>; the model threads it
  through the four \<^verbatim>\<open>if\<close> statements in the order of the source. The call also stores
  the report in the hook's state (\<^verbatim>\<open>setValidation\<close>); the model is the returned report.
\<close>

definition validateFace ::
  "DetectedFace \<Rightarrow> jsnum \<Rightarrow> jsnum \<Rightarrow> PassportStandard \<Rightarrow> FaceValidation" where
  "validateFace face imageWidth imageHeight standard =
     (let b = box face;
          faceHeight = ymax b - ymin b;
          faceCenterX = (xmin b + xmax b) / Fin 2;
          hhp = (faceHeight / imageHeight) * Fin 100;
          eyeY = ymin b + faceHeight * Fin 0.35;
          elp = ((imageHeight - eyeY) / imageHeight) * Fin 100;
          imageCenterX = imageWidth / Fin 2;
          coff = \<bar>faceCenterX - imageCenterX\<bar> / imageWidth * Fin 100;
          hhv = (headHeightMin standard * Fin 0.8 \<le> hhp \<and>
                 hhp \<le> headHeightMax standard * Fin 1.2);
          elv = (\<bar>elp - eyeLineFromBottom standard\<bar> \<le> Fin 15);
          cv = (coff \<le> Fin 10);
          m0 = [];
          m1 = (if \<not> hhv
                then (if hhp < headHeightMin standard * Fin 0.8
                      then m0 @ [msg_too_small] else m0 @ [msg_too_large])
                else m0);
          m2 = (if \<not> elv
                then (if elp < eyeLineFromBottom standard
                      then m1 @ [msg_too_low] else m1 @ [msg_too_high])
                else m1);
          m3 = (if \<not> cv then m2 @ [msg_not_centered] else m2);
          m4 = (if length m3 = 0 then m3 @ [msg_success] else m3)
      in \<lparr>isValid = (hhv \<and> elv \<and> cv), headHeightValid = hhv, eyeLineValid = elv,
          centeredValid = cv, headHeightPercent = hhp, eyeLinePercent = elp,
          centerOffset = coff, messages = m4\<rparr>)"

record Position =
  pos_x :: jsnum
  pos_y :: jsnum

record AutoPosition =
  scale :: jsnum
  position :: Position

text \<open>
  \<^verbatim>\<open>calculateAutoPosition\<close>. The fields \<^verbatim>\<open>x\<close> and \<^verbatim>\<open>y\<close> of the returned position are
  \<open>pos_x\<close> and \<open>pos_y\<close>. \<^verbatim>\<open>faceWidth\<close> and \<^verbatim>\<open>faceCenterY\<close> are computed by the source and
  never read.
\<close>

definition calculateAutoPosition ::
  "DetectedFace \<Rightarrow> jsnum \<Rightarrow> jsnum \<Rightarrow> jsnum \<Rightarrow> jsnum \<Rightarrow> PassportStandard
     \<Rightarrow> error + AutoPosition" where
  "calculateAutoPosition face imageWidth imageHeight canvasWidth canvasHeight standard =
     (let b = box face;
          faceHeight = ymax b - ymin b;
          faceCenterX = (xmin b + xmax b) / Fin 2;
          targetHeadPercent =
            (headHeightMin standard + headHeightMax standard) / Fin 2 / Fin 100;
          targetHeadHeight = canvasHeight * targetHeadPercent;
          scl = targetHeadHeight / faceHeight;
          scaledImageWidth = imageWidth * scl;
          scaledImageHeight = imageHeight * scl;
          scaledFaceCenterX = faceCenterX * scl;
          targetCenterX = canvasWidth / Fin 2;
          offsetX = targetCenterX - scaledFaceCenterX;
          eyeY = ymin b + faceHeight * Fin 0.35;
          scaledEyeY = eyeY * scl;
          targetEyeY = canvasHeight * (Fin 1 - eyeLineFromBottom standard / Fin 100);
          offsetY = targetEyeY - scaledEyeY;
          baseX = (canvasWidth - scaledImageWidth) / Fin 2;
          baseY = (canvasHeight - scaledImageHeight) / Fin 2
      in Inr \<lparr>scale = scl,
              position = \<lparr>pos_x = offsetX - baseX + (canvasWidth - scaledImageWidth) / Fin 2,
                          pos_y = offsetY - baseY + (canvasHeight - scaledImageHeight) / Fin 2\<rparr>\<rparr>)"

section \<open>Rendering convention (\<^verbatim>\<open>drawCanvas\<close> in \<^verbatim>\<open>src/components/PhotoEditor.tsx\<close>)\<close>

record Rect =
  rect_x :: jsnum
  rect_y :: jsnum
  rect_w :: jsnum
  rect_h :: jsnum

text \<open>
  Where \<^verbatim>\<open>drawCanvas\<close> puts the image (\<^verbatim>\<open>ctx.drawImage(image, x, y, imgWidth, imgHeight)\<close>)
  for a canvas, an image size, a scale and a position.
\<close>

definition drawCanvas_image :: "jsnum \<Rightarrow> jsnum \<Rightarrow> jsnum \<Rightarrow> jsnum \<Rightarrow> jsnum \<Rightarrow> Position \<Rightarrow> Rect" where
  "drawCanvas_image canvas_width canvas_height image_width image_height scl pos =
     (let imgWidth = image_width * scl;
          imgHeight = image_height * scl;
          x = (canvas_width - imgWidth) / Fin 2 + pos_x pos;
          y = (canvas_height - imgHeight) / Fin 2 + pos_y pos
      in \<lparr>rect_x = x, rect_y = y, rect_w = imgWidth, rect_h = imgHeight\<rparr>)"

text \<open>
  Where \<^verbatim>\<open>drawCanvas\<close> strokes the detected face box
  (\<^verbatim>\<open>ctx.strokeRect(boxX, boxY, boxWidth, boxHeight)\<close>): a point \<open>p\<close> of the source image is
  shown at the image's top-left corner plus \<open>p * scale\<close>.
\<close>

definition drawCanvas_faceBox ::
  "jsnum \<Rightarrow> jsnum \<Rightarrow> jsnum \<Rightarrow> jsnum \<Rightarrow> jsnum \<Rightarrow> Position \<Rightarrow> DetectedFace \<Rightarrow> Rect" where
  "drawCanvas_faceBox canvas_width canvas_height image_width image_height scl pos detectedFace =
     (let img = drawCanvas_image canvas_width canvas_height image_width image_height scl pos;
          b = box detectedFace;
          boxX = rect_x img + xmin b * scl;
          boxY = rect_y img + ymin b * scl;
          boxWidth = (xmax b - xmin b) * scl;
          boxHeight = (ymax b - ymin b) * scl
      in \<lparr>rect_x = boxX, rect_y = boxY, rect_w = boxWidth, rect_h = boxHeight\<rparr>)"

section \<open>Sheet preview (\<^verbatim>\<open>src/components/SheetPreview.tsx\<close>)\<close>

text \<open>
  A call that raises passes its error on to the caller; \<open>bind_result\<close> sequences two calls
  that way.
\<close>

definition bind_result :: "error + 'a \<Rightarrow> ('a \<Rightarrow> error + 'b) \<Rightarrow> error + 'b" where
  "bind_result m f = (case m of Inl e \<Rightarrow> Inl e | Inr v \<Rightarrow> f v)"

text \<open>The three constants of the component (\<^verbatim>\<open>marginMm\<close> and \<^verbatim>\<open>gapMm\<close> carry its name).\<close>

definition previewScale :: jsnum where
  "previewScale = Fin 0.5"

definition SheetPreview_marginMm :: jsnum where
  "SheetPreview_marginMm = Fin 5"

definition SheetPreview_gapMm :: jsnum where
  "SheetPreview_gapMm = Fin 2"

text \<open>
  The grid \<^verbatim>\<open>{ columns, rows, total }\<close> that the component computes once per render, before
  and outside \<^verbatim>\<open>drawSheet\<close>.
\<close>

definition SheetPreview_grid :: "PassportStandard \<Rightarrow> SheetSize \<Rightarrow> error + SheetGrid" where
  "SheetPreview_grid standard sheet =
     calculatePhotosPerSheet (width standard) (height standard) sheet
       SheetPreview_marginMm SheetPreview_gapMm"

record SheetMetrics =
  sheetWidthPx :: jsnum
  sheetHeightPx :: jsnum
  photoWidthPx :: jsnum
  photoHeightPx :: jsnum
  marginPx :: jsnum
  gapPx :: jsnum

text \<open>The six pixel quantities at the head of \<^verbatim>\<open>drawSheet(exportMode)\<close>.\<close>

definition drawSheet_metrics ::
  "PassportStandard \<Rightarrow> SheetSize \<Rightarrow> bool \<Rightarrow> error + SheetMetrics" where
  "drawSheet_metrics standard sheet exportMode =
     (let d = dpi sheet;
          scl = (if exportMode then Fin 1 else previewScale)
      in bind_result (mmToPixels (sheet_width sheet) d) (\<lambda>sw.
         bind_result (mmToPixels (sheet_height sheet) d) (\<lambda>sh.
         bind_result (mmToPixels (width standard) d) (\<lambda>pw.
         bind_result (mmToPixels (height standard) d) (\<lambda>ph.
         bind_result (mmToPixels SheetPreview_marginMm d) (\<lambda>mg.
         bind_result (mmToPixels SheetPreview_gapMm d) (\<lambda>gp.
           Inr \<lparr>sheetWidthPx = sw * scl, sheetHeightPx = sh * scl,
                photoWidthPx = pw * scl, photoHeightPx = ph * scl,
                marginPx = mg * scl, gapPx = gp * scl\<rparr>)))))))"

text \<open>
  The photo loops of \<^verbatim>\<open>drawSheet\<close>:
  \<^verbatim>\<open>for (let row = 0; row < rows; row++) for (let col = 0; col < columns; col++) { ... }\<close>.
  The counters are natural numbers, the bounds are numbers of the program, and \<open>drawn\<close> is the
  list of rectangles passed to \<^verbatim>\<open>ctx.drawImage\<close> so far. A bound of \<^verbatim>\<open>Infinity\<close> makes the
  loop run forever, which is the value \<open>None\<close>. The cut-guide loops that follow draw no
  photo and are not modelled.
\<close>

partial_function (option) col_loop ::
  "jsnum \<Rightarrow> (nat \<Rightarrow> 'a) \<Rightarrow> nat \<Rightarrow> 'a list \<Rightarrow> 'a list option" where
  "col_loop cols body col drawn =
     (if Fin (real col) < cols then col_loop cols body (Suc col) (drawn @ [body col])
      else Some drawn)"

partial_function (option) row_loop ::
  "jsnum \<Rightarrow> jsnum \<Rightarrow> (nat \<Rightarrow> nat \<Rightarrow> 'a) \<Rightarrow> nat \<Rightarrow> 'a list \<Rightarrow> 'a list option" where
  "row_loop rws cols body row drawn =
     (if Fin (real row) < rws
      then Option.bind (col_loop cols (body row) 0 drawn)
             (\<lambda>drawn'. row_loop rws cols body (Suc row) drawn')
      else Some drawn)"

text \<open>The loop body: \<^verbatim>\<open>ctx.drawImage(img, x, y, photoWidthPx, photoHeightPx)\<close>.\<close>

definition photo_rect :: "SheetMetrics \<Rightarrow> nat \<Rightarrow> nat \<Rightarrow> Rect" where
  "photo_rect m row col =
     \<lparr>rect_x = marginPx m + Fin (real col) * (photoWidthPx m + gapPx m),
      rect_y = marginPx m + Fin (real row) * (photoHeightPx m + gapPx m),
      rect_w = photoWidthPx m, rect_h = photoHeightPx m\<rparr>"

definition drawSheet_photos ::
  "PassportStandard \<Rightarrow> SheetSize \<Rightarrow> bool \<Rightarrow> error + (Rect list) option" where
  "drawSheet_photos standard sheet exportMode =
     bind_result (SheetPreview_grid standard sheet) (\<lambda>g.
     bind_result (drawSheet_metrics standard sheet exportMode) (\<lambda>m.
       Inr (row_loop (rows g) (columns g) (photo_rect m) 0 [])))"

text \<open>The column indices that a terminating inner loop visits, for the proofs below.\<close>

fun col_range :: "jsnum \<Rightarrow> nat list" where
  "col_range (Fin c) = [0 ..< nat \<lceil>c\<rceil>]"
| "col_range PInf = []"
| "col_range NInf = []"
| "col_range NaN = []"

section \<open>Unit conversion\<close>







section \<open>Sheet layout\<close>

text \<open>
  Claim C9. A 35 mm by 45 mm photo on the A4 entry of \<^verbatim>\<open>sheetSizes\<close> (210 mm by 297 mm),
  with a 5 mm margin and a 2 mm gap, gives 5 columns, 6 rows and 30 photos.
\<close>

theorem C9_a4_layout:
  "calculatePhotosPerSheet (Fin 35) (Fin 45) sheet_a4 (Fin 5) (Fin 2)
     = Inr \<lparr>columns = Fin 5, rows = Fin 6, total = Fin 30\<rparr>
   \<and> sheetSizes ! 2 = sheet_a4
   \<and> sheet_width sheet_a4 = Fin 210 \<and> sheet_height sheet_a4 = Fin 297"
  by (simp add: calculatePhotosPerSheet_def sheet_a4_def sheetSizes_def minus_jsnum_def)




section \<open>Compliance validator\<close>



text \<open>
  Claim C7. For every input, however malformed, the message list of \<^verbatim>\<open>validateFace\<close> is
  never empty. When all three checks pass it is the success message alone; otherwise it
  holds one message for each failing check and nothing else, the head-height message first
  ("too small" when the percentage is below the lower limit, "too large" otherwise), then
  the eye-line message ("too low" when the eye line is below the standard's, "too high"
  otherwise), then the centering message.
\<close>

theorem C7_message_list:
  fixes face :: DetectedFace and iw ih :: jsnum and st :: PassportStandard
  defines "r \<equiv> validateFace face iw ih st"
  shows "messages r \<noteq> []
    \<and> isValid r = (headHeightValid r \<and> eyeLineValid r \<and> centeredValid r)
    \<and> messages r =
        (if isValid r then [msg_success]
         else (if headHeightValid r then []
               else [if headHeightPercent r < headHeightMin st * Fin 0.8
                     then msg_too_small else msg_too_large])
            @ (if eyeLineValid r then []
               else [if eyeLinePercent r < eyeLineFromBottom st
                     then msg_too_low else msg_too_high])
            @ (if centeredValid r then [] else [msg_not_centered]))
    \<and> length (messages r) =
        (if isValid r then 1
         else (if headHeightValid r then 0 else 1) + (if eyeLineValid r then 0 else 1)
            + (if centeredValid r then 0 else 1))"
  unfolding r_def by (simp add: validateFace_def Let_def)

theorem C7_message_list_witness:
  "messages (validateFace
      \<lparr>box = \<lparr>xmin = Fin 300, ymin = Fin 10, xmax = Fin 380, ymax = Fin 50\<rparr>, score = Fin 0.9\<rparr>
      (Fin 400) (Fin 400) std_us)
     = [msg_too_small, msg_too_high, msg_not_centered]
   \<and> messages (validateFace
      \<lparr>box = \<lparr>xmin = Fin 150, ymin = Fin 100, xmax = Fin 250, ymax = Fin 340\<rparr>, score = Fin 0.9\<rparr>
      (Fin 400) (Fin 400) std_us)
     = [msg_success]"
  using C7_message_list [of "\<lparr>box = \<lparr>xmin = Fin 300, ymin = Fin 10, xmax = Fin 380,
        ymax = Fin 50\<rparr>, score = Fin 0.9\<rparr>" "Fin 400" "Fin 400" std_us]
      C7_message_list [of "\<lparr>box = \<lparr>xmin = Fin 150, ymin = Fin 100, xmax = Fin 250,
        ymax = Fin 340\<rparr>, score = Fin 0.9\<rparr>" "Fin 400" "Fin 400" std_us]
  by (simp add: validateFace_def std_us_def minus_jsnum_def Let_def)

section \<open>Alignment solver\<close>

text \<open>
  Every entry of the catalogue has finite fields within the ranges of the data model:
  \<open>0 < headHeightMin < headHeightMax \<le> 100\<close>, \<open>0 < eyeLineFromBottom < 100\<close> and a positive
  size.
\<close>

lemma passportStandards_ranges:
  "\<forall>s \<in> set passportStandards. \<exists>hmin hmax e w h.
     headHeightMin s = Fin hmin \<and> headHeightMax s = Fin hmax \<and> eyeLineFromBottom s = Fin e
     \<and> width s = Fin w \<and> height s = Fin h
     \<and> 0 < hmin \<and> hmin < hmax \<and> hmax \<le> 100 \<and> 0 < e \<and> e < 100 \<and> 0 < w \<and> 0 < h"
  by (simp add: passportStandards_def std_us_def std_uk_def std_eu_def std_india_def
      std_china_def std_canada_def std_australia_def std_japan_def std_germany_def
      std_france_def)








text \<open>
  Where the solver's result puts the face under the rendering convention. For finite inputs
  with \<open>ymin < ymax\<close> and the returned scale \<open>s\<close>, the centre of the face box that
  \<^verbatim>\<open>drawCanvas\<close> strokes is at \<open>canvasWidth / 2 + (canvasWidth - imageWidth * s) / 2\<close> and its
  eye line (35% down the box) is at
  \<open>canvasHeight * (1 - eyeLineFromBottom / 100) + (canvasHeight - imageHeight * s) / 2\<close>:
  both are off their targets by the centring offset of the scaled image, because the
  returned position adds that offset back after subtracting it.
\<close>

lemma calculateAutoPosition_drawn_face:
  assumes b: "box face = \<lparr>xmin = Fin xlo, ymin = Fin ylo, xmax = Fin xhi, ymax = Fin yhi\<rparr>"
    and fh: "ylo < yhi"
    and img: "imageWidth = Fin w" "imageHeight = Fin h"
    and cv: "canvasWidth = Fin cw" "canvasHeight = Fin ch"
    and st: "headHeightMin st = Fin hmin" "headHeightMax st = Fin hmax"
            "eyeLineFromBottom st = Fin e"
  defines "s \<equiv> ch * ((hmin + hmax) / 2 / 100) / (yhi - ylo)"
  shows "\<exists>r fb.
       calculateAutoPosition face imageWidth imageHeight canvasWidth canvasHeight st = Inr r
     \<and> scale r = Fin s
     \<and> drawCanvas_faceBox canvasWidth canvasHeight imageWidth imageHeight
          (scale r) (position r) face = fb
     \<and> rect_x fb + rect_w fb / Fin 2 = Fin (cw / 2 + (cw - w * s) / 2)
     \<and> rect_y fb + rect_h fb * Fin 0.35 = Fin (ch * (1 - e / 100) + (ch - h * s) / 2)"
proof -
  define px where "px = cw / 2 - (xlo + xhi) / 2 * s"
  define py where "py = ch * (1 - e / 100) - (ylo + (yhi - ylo) * 0.35) * s"
  have run: "calculateAutoPosition face imageWidth imageHeight canvasWidth canvasHeight st
      = Inr \<lparr>scale = Fin s, position = \<lparr>pos_x = Fin px, pos_y = Fin py\<rparr>\<rparr>"
    using assms(1-9)
    by (simp add: calculateAutoPosition_def minus_jsnum_def Let_def s_def px_def py_def)
  have fb: "drawCanvas_faceBox canvasWidth canvasHeight imageWidth imageHeight (Fin s)
                \<lparr>pos_x = Fin px, pos_y = Fin py\<rparr> face
      = \<lparr>rect_x = Fin ((cw - w * s) / 2 + px + xlo * s),
         rect_y = Fin ((ch - h * s) / 2 + py + ylo * s),
         rect_w = Fin ((xhi - xlo) * s), rect_h = Fin ((yhi - ylo) * s)\<rparr>"
    using b img cv
    by (simp add: drawCanvas_faceBox_def drawCanvas_image_def minus_jsnum_def Let_def)
  have cx: "(cw - w * s) / 2 + px + xlo * s + (xhi - xlo) * s / 2 = cw / 2 + (cw - w * s) / 2"
    by (simp add: px_def field_simps)
  have ey: "(ch - h * s) / 2 + py + ylo * s + (yhi - ylo) * s * 0.35
      = ch * (1 - e / 100) + (ch - h * s) / 2"
    by (simp add: py_def field_simps)
  have fbx: "Fin ((cw - w * s) / 2 + px + xlo * s) + Fin ((xhi - xlo) * s) / Fin 2
      = Fin (cw / 2 + (cw - w * s) / 2)"
    using cx by simp
  have fby: "Fin ((ch - h * s) / 2 + py + ylo * s) + Fin ((yhi - ylo) * s) * Fin 0.35
      = Fin (ch * (1 - e / 100) + (ch - h * s) / 2)"
    using ey by simp
  show ?thesis
    using run fb fbx fby by simp
qed

text \<open>
  Claim C1 on a concrete input. A 400 by 400 image with the face box
  \<open>(150, 100) - (250, 200)\<close> on the 400 by 400 canvas of the US standard: the solver returns
  scale 2.38 and position \<open>(-276, -145.3)\<close>. Drawn with these, the face box is the rectangle
  at \<open>(-195, -183.3)\<close> of size 238 by 238: its centre is at \<open>x = -76\<close>, not at
  \<open>canvasWidth / 2 = 200\<close>, and its eye line is at \<open>y = -100\<close>, not at
  \<open>canvasHeight * (1 - 56 / 100) = 176\<close>.
\<close>

theorem C1_auto_position_misses_target:
  "calculateAutoPosition
      \<lparr>box = \<lparr>xmin = Fin 150, ymin = Fin 100, xmax = Fin 250, ymax = Fin 200\<rparr>, score = Fin 0.9\<rparr>
      (Fin 400) (Fin 400) (Fin 400) (Fin 400) std_us
     = Inr \<lparr>scale = Fin 2.38, position = \<lparr>pos_x = Fin (- 276), pos_y = Fin (- 145.3)\<rparr>\<rparr>
   \<and> drawCanvas_faceBox (Fin 400) (Fin 400) (Fin 400) (Fin 400) (Fin 2.38)
        \<lparr>pos_x = Fin (- 276), pos_y = Fin (- 145.3)\<rparr>
        \<lparr>box = \<lparr>xmin = Fin 150, ymin = Fin 100, xmax = Fin 250, ymax = Fin 200\<rparr>, score = Fin 0.9\<rparr>
     = \<lparr>rect_x = Fin (- 195), rect_y = Fin (- 183.3), rect_w = Fin 238, rect_h = Fin 238\<rparr>
   \<and> Fin (- 195) + Fin 238 / Fin 2 = Fin (- 76)
   \<and> Fin 400 / Fin 2 = Fin 200
   \<and> Fin (- 195) + Fin 238 / Fin 2 \<noteq> Fin 400 / Fin 2
   \<and> Fin (- 183.3) + Fin 238 * Fin 0.35 = Fin (- 100)
   \<and> Fin 400 * (Fin 1 - eyeLineFromBottom std_us / Fin 100) = Fin 176
   \<and> Fin (- 183.3) + Fin 238 * Fin 0.35
       \<noteq> Fin 400 * (Fin 1 - eyeLineFromBottom std_us / Fin 100)"
  by (simp add: calculateAutoPosition_def drawCanvas_faceBox_def drawCanvas_image_def
      std_us_def minus_jsnum_def Let_def)

section \<open>Sheet preview: the photo grid\<close>

text \<open>The inner loop: with a finite bound it stops after visiting the columns below it.\<close>

lemma col_loop_Fin:
  "col_loop (Fin c) body col drawn = Some (drawn @ map body [col ..< nat \<lceil>c\<rceil>])"
proof (induction "nat \<lceil>c\<rceil> - col" arbitrary: col drawn)
  case 0
  then have "\<not> real col < c"
    by linarith
  moreover have "[col ..< nat \<lceil>c\<rceil>] = []"
    using 0 by simp
  ultimately show ?case
    by (subst col_loop.simps) simp
next
  case (Suc k)
  then have lt: "col < nat \<lceil>c\<rceil>"
    by simp
  then have "real col < c"
    by linarith
  moreover have "col_loop (Fin c) body (Suc col) (drawn @ [body col])
      = Some ((drawn @ [body col]) @ map body [Suc col ..< nat \<lceil>c\<rceil>])"
    using Suc by (intro Suc.hyps(1)) simp
  ultimately show ?case
    using lt by (subst col_loop.simps) (simp add: upt_conv_Cons)
qed

lemma col_loop_NaN: "col_loop NaN body col drawn = Some drawn"
  by (subst col_loop.simps) simp

lemma col_loop_NInf: "col_loop NInf body col drawn = Some drawn"
  by (subst col_loop.simps) simp

text \<open>With the bound \<^verbatim>\<open>Infinity\<close> the loop never returns.\<close>

lemma col_loop_Some_not_PInf:
  assumes "col_loop cols body col drawn = Some res"
  shows "cols \<noteq> PInf"
  by (rule col_loop.raw_induct [where P = "\<lambda>cols _ _ _ _. cols \<noteq> PInf", OF _ assms])
     (auto split: if_splits)

lemma col_loop_PInf: "col_loop PInf body col drawn = None"
  using col_loop_Some_not_PInf [of PInf body col drawn]
  by (cases "col_loop PInf body col drawn") auto

lemma col_loop_closed:
  "cols \<noteq> PInf \<Longrightarrow> col_loop cols body 0 drawn = Some (drawn @ map body (col_range cols))"
  by (cases cols) (simp_all add: col_loop_Fin col_loop_NaN col_loop_NInf)

text \<open>The outer loop, likewise.\<close>

lemma row_loop_Fin:
  assumes "cols \<noteq> PInf"
  shows "row_loop (Fin r) cols body row drawn
     = Some (drawn @ concat (map (\<lambda>i. map (body i) (col_range cols)) [row ..< nat \<lceil>r\<rceil>]))"
proof (induction "nat \<lceil>r\<rceil> - row" arbitrary: row drawn)
  case 0
  then have "\<not> real row < r"
    by linarith
  moreover have "[row ..< nat \<lceil>r\<rceil>] = []"
    using 0 by simp
  ultimately show ?case
    by (subst row_loop.simps) simp
next
  case (Suc k)
  then have lt: "row < nat \<lceil>r\<rceil>"
    by simp
  then have cond: "real row < r"
    by linarith
  have inner: "col_loop cols (body row) 0 drawn = Some (drawn @ map (body row) (col_range cols))"
    using assms by (rule col_loop_closed)
  have rest: "row_loop (Fin r) cols body (Suc row) (drawn @ map (body row) (col_range cols))
      = Some ((drawn @ map (body row) (col_range cols))
                @ concat (map (\<lambda>i. map (body i) (col_range cols)) [Suc row ..< nat \<lceil>r\<rceil>]))"
    using Suc by (intro Suc.hyps(1)) simp
  show ?case
    using cond inner rest lt by (subst row_loop.simps) (simp add: upt_conv_Cons)
qed

lemma row_loop_Some_not_PInf:
  assumes "row_loop rws cols body row drawn = Some res"
  shows "rws \<noteq> PInf"
proof (rule row_loop.raw_induct [where P = "\<lambda>rws _ _ _ _ _. rws \<noteq> PInf", OF _ assms])
  fix f :: "jsnum \<Rightarrow> jsnum \<Rightarrow> (nat \<Rightarrow> nat \<Rightarrow> 'a) \<Rightarrow> nat \<Rightarrow> 'a list \<Rightarrow> 'a list option"
  fix rws cols body row drawn res
  assume ih: "\<And>rws cols body row drawn res. f rws cols body row drawn = Some res \<Longrightarrow> rws \<noteq> PInf"
    and step: "(if Fin (real row) < rws
                then Option.bind (col_loop cols (body row) 0 drawn) (f rws cols body (Suc row))
                else Some drawn) = Some res"
  show "rws \<noteq> PInf"
  proof (cases "Fin (real row) < rws")
    case True
    with step obtain drawn' where "f rws cols body (Suc row) drawn' = Some res"
      by (auto simp: bind_eq_Some_conv)
    then show ?thesis
      by (rule ih)
  next
    case False
    then show ?thesis
      by auto
  qed
qed

lemma row_loop_PInf_rows: "row_loop PInf cols body row drawn = None"
  using row_loop_Some_not_PInf [of PInf cols body row drawn]
  by (cases "row_loop PInf cols body row drawn") auto

lemma row_loop_PInf_cols:
  "row_loop rws PInf body row drawn = (if Fin (real row) < rws then None else Some drawn)"
  by (subst row_loop.simps) (simp add: col_loop_PInf)

lemma row_loop_NaN: "row_loop NaN cols body row drawn = Some drawn"
  by (subst row_loop.simps) simp

lemma row_loop_NInf: "row_loop NInf cols body row drawn = Some drawn"
  by (subst row_loop.simps) simp

text \<open>
  What the loops draw is the body applied to the index pairs \<open>(row, col)\<close> they visit, in
  the order of the visit; whether they return depends on the bounds alone.
\<close>

lemma row_loop_indices:
  "row_loop rws cols body 0 []
     = map_option (map (\<lambda>(row, col). body row col)) (row_loop rws cols Pair 0 [])"
proof (cases "cols = PInf")
  case True
  then show ?thesis
    by (simp add: row_loop_PInf_cols)
next
  case False
  have "concat (map (\<lambda>i. map (body i) cs) is)
          = map (\<lambda>(row, col). body row col) (concat (map (\<lambda>i. map (Pair i) cs) is))"
    for cs "is"
    by (induction "is") simp_all
  with False show ?thesis
    by (cases rws) (simp_all add: row_loop_Fin row_loop_PInf_rows row_loop_NaN row_loop_NInf)
qed

lemma drawSheet_metrics_returns: "\<exists>m. drawSheet_metrics st sh mode = Inr m"
  by (simp add: drawSheet_metrics_def bind_result_def mmToPixels_def Let_def)

lemma SheetPreview_grid_returns: "\<exists>g. SheetPreview_grid st sh = Inr g"
  by (simp add: SheetPreview_grid_def calculatePhotosPerSheet_def Let_def)

text \<open>
  For a standard and a sheet of finite size (photo width and height above \<open>-2\<close>, so every
  positive size), the grid is a pair of integers, \<^verbatim>\<open>drawSheet\<close> returns in either mode, and
  it draws \<open>rows * columns\<close> photos, none when a count is negative.
\<close>

lemma drawSheet_photos_count:
  assumes "width st = Fin w" and "height st = Fin h" and "- 2 < w" and "- 2 < h"
    and "sheet_width sh = Fin sw" and "sheet_height sh = Fin sht"
  shows "\<exists>c r cells. SheetPreview_grid st sh
            = Inr \<lparr>columns = Fin (of_int c), rows = Fin (of_int r), total = Fin (of_int (c * r))\<rparr>
          \<and> drawSheet_photos st sh mode = Inr (Some cells)
          \<and> length cells = nat r * nat c"
proof -
  define c where "c = \<lfloor>(sw - 2 * 5 + 2) / (w + 2)\<rfloor>"
  define r where "r = \<lfloor>(sht - 2 * 5 + 2) / (h + 2)\<rfloor>"
  have grid: "SheetPreview_grid st sh
      = Inr \<lparr>columns = Fin (of_int c), rows = Fin (of_int r), total = Fin (of_int (c * r))\<rparr>"
    using assms
    by (simp add: SheetPreview_grid_def calculatePhotosPerSheet_def minus_jsnum_def
        SheetPreview_marginMm_def SheetPreview_gapMm_def c_def r_def)
  obtain m where m: "drawSheet_metrics st sh mode = Inr m"
    using drawSheet_metrics_returns by blast
  have loop: "row_loop (Fin (of_int r)) (Fin (of_int c)) (photo_rect m) 0 []
      = Some (concat (map (\<lambda>i. map (photo_rect m i) [0 ..< nat c]) [0 ..< nat r]))"
    by (simp add: row_loop_Fin)
  have len: "length (concat (map (\<lambda>i. map (f i) [0 ..< k]) js)) = length js * k"
    for f :: "nat \<Rightarrow> nat \<Rightarrow> Rect" and k js
    by (induction js) simp_all
  have draw: "drawSheet_photos st sh mode
      = Inr (Some (concat (map (\<lambda>i. map (photo_rect m i) [0 ..< nat c]) [0 ..< nat r])))"
    using grid m loop by (simp add: drawSheet_photos_def bind_result_def)
  show ?thesis
    using grid draw len [of "photo_rect m" "nat c" "[0 ..< nat r]"] by simp
qed

text \<open>The UK photo (35 mm by 45 mm) on A4: 30 photos in the preview and in the export.\<close>

lemma drawSheet_photos_uk_a4:
  "\<exists>cells. drawSheet_photos std_uk sheet_a4 mode = Inr (Some cells) \<and> length cells = 30"
  using drawSheet_photos_count [where st = std_uk and sh = sheet_a4 and w = 35 and h = 45
      and sw = 210 and sht = 297 and mode = mode]
  by (auto simp: std_uk_def sheet_a4_def SheetPreview_grid_def calculatePhotosPerSheet_def
      SheetPreview_marginMm_def SheetPreview_gapMm_def minus_jsnum_def)

text \<open>
  Claim C10. Two sheet sizes that agree on width and height in millimetres, whatever their
  \<open>dpi\<close>, \<open>id\<close> and \<open>name\<close>, give the same result of \<^verbatim>\<open>calculatePhotosPerSheet\<close> for every
  photo size, margin and gap. Consequently the preview (scale 0.5) on one and the export
  (scale 1) on the other use one grid: both runs of \<^verbatim>\<open>drawSheet\<close> place their photos at the
  same sequence of \<open>(row, column)\<close> cells, each with the pixel metrics of its own mode and
  \<open>dpi\<close>.
\<close>

theorem C10_layout_independent_of_dpi:
  assumes "sheet_width s1 = sheet_width s2" and "sheet_height s1 = sheet_height s2"
  shows "calculatePhotosPerSheet pw ph s1 m g = calculatePhotosPerSheet pw ph s2 m g
    \<and> (\<exists>grid mp me. SheetPreview_grid st s1 = Inr grid \<and> SheetPreview_grid st s2 = Inr grid
          \<and> drawSheet_metrics st s1 False = Inr mp \<and> drawSheet_metrics st s2 True = Inr me
          \<and> drawSheet_photos st s1 False
              = Inr (map_option (map (\<lambda>(row, col). photo_rect mp row col))
                       (row_loop (rows grid) (columns grid) Pair 0 []))
          \<and> drawSheet_photos st s2 True
              = Inr (map_option (map (\<lambda>(row, col). photo_rect me row col))
                       (row_loop (rows grid) (columns grid) Pair 0 [])))"
proof -
  have same: "calculatePhotosPerSheet pw ph s1 m g = calculatePhotosPerSheet pw ph s2 m g"
    for pw ph m g
    using assms by (simp add: calculatePhotosPerSheet_def)
  obtain grid where g1: "SheetPreview_grid st s1 = Inr grid"
    using SheetPreview_grid_returns by blast
  then have g2: "SheetPreview_grid st s2 = Inr grid"
    using same by (simp add: SheetPreview_grid_def)
  obtain mp where mp: "drawSheet_metrics st s1 False = Inr mp"
    using drawSheet_metrics_returns by blast
  obtain me where me: "drawSheet_metrics st s2 True = Inr me"
    using drawSheet_metrics_returns by blast
  have d1: "drawSheet_photos st s1 False
              = Inr (map_option (map (\<lambda>(row, col). photo_rect mp row col))
                       (row_loop (rows grid) (columns grid) Pair 0 []))"
    using g1 mp
    by (simp add: drawSheet_photos_def bind_result_def row_loop_indices [of _ _ "photo_rect mp"])
  have d2: "drawSheet_photos st s2 True
              = Inr (map_option (map (\<lambda>(row, col). photo_rect me row col))
                       (row_loop (rows grid) (columns grid) Pair 0 []))"
    using g2 me
    by (simp add: drawSheet_photos_def bind_result_def row_loop_indices [of _ _ "photo_rect me"])
  show ?thesis
    using same g1 g2 mp me d1 d2 by blast
qed

theorem C10_layout_independent_of_dpi_witness:
  "sheet_width sheet_a4 = sheet_width (sheet_a4\<lparr>sheet_id := ''a4-600'', dpi := Fin 600\<rparr>)
   \<and> sheet_height sheet_a4 = sheet_height (sheet_a4\<lparr>sheet_id := ''a4-600'', dpi := Fin 600\<rparr>)
   \<and> calculatePhotosPerSheet (Fin 35) (Fin 45) sheet_a4 (Fin 5) (Fin 2)
       = calculatePhotosPerSheet (Fin 35) (Fin 45)
           (sheet_a4\<lparr>sheet_id := ''a4-600'', dpi := Fin 600\<rparr>) (Fin 5) (Fin 2)
   \<and> (\<exists>grid mp me.
          SheetPreview_grid std_uk sheet_a4 = Inr grid
        \<and> SheetPreview_grid std_uk (sheet_a4\<lparr>sheet_id := ''a4-600'', dpi := Fin 600\<rparr>) = Inr grid
        \<and> drawSheet_metrics std_uk sheet_a4 False = Inr mp
        \<and> drawSheet_metrics std_uk (sheet_a4\<lparr>sheet_id := ''a4-600'', dpi := Fin 600\<rparr>) True
            = Inr me
        \<and> drawSheet_photos std_uk sheet_a4 False
            = Inr (map_option (map (\<lambda>(row, col). photo_rect mp row col))
                     (row_loop (rows grid) (columns grid) Pair 0 []))
        \<and> drawSheet_photos std_uk (sheet_a4\<lparr>sheet_id := ''a4-600'', dpi := Fin 600\<rparr>) True
            = Inr (map_option (map (\<lambda>(row, col). photo_rect me row col))
                     (row_loop (rows grid) (columns grid) Pair 0 [])))"
  using C10_layout_independent_of_dpi [where ?s1.0 = sheet_a4
      and ?s2.0 = "sheet_a4\<lparr>sheet_id := ''a4-600'', dpi := Fin 600\<rparr>"
      and pw = "Fin 35" and ph = "Fin 45" and m = "Fin 5" and g = "Fin 2" and st = std_uk]
  by simp

end
